theory Spec2Isabelle
  imports Main
begin

section \<open>The formatter registry of daf\_persistence\<close>

text \<open>
  A shallow embedding of \<^verbatim>\<open>src/FormatterRegistry.cc\<close>: the registry object with its
  two containers, registration, the two overloads of \<^verbatim>\<open>lookupFormatter\<close> and the
  singleton accessor. Exceptions are values of a sum type, the calls a lookup makes to its
  collaborators (the policy and the factory) are returned as a list beside the result, and
  the function-scoped static of \<^verbatim>\<open>getInstance\<close> is a field of an explicit process state.
\<close>

subsection \<open>Containers\<close>

text \<open>
  Modelled from the spec: the typedefs \<^verbatim>\<open>FactoryMap\<close> and \<^verbatim>\<open>StringMap\<close> are declared in
  \<^verbatim>\<open>FormatterRegistry.h\<close>, which is not among the sources. The code only calls
  \<^verbatim>\<open>insert(value_type(k, v))\<close>, \<^verbatim>\<open>find(k)\<close> and \<^verbatim>\<open>end()\<close> on them, and the spec leaves
  open whether a key may carry several entries ("if the underlying container allows it")
  while fixing that a lookup resolves to the first match. Both readings are kept: a
  container records whether it is a multi-map (\<open>multi\<close>) and holds its entries in the
  order of insertion. With unique keys \<^verbatim>\<open>insert\<close> leaves the container as it is when
  the key is present (as \<^verbatim>\<open>std::map::insert\<close> does); a multi-map inserts after the
  entries of the same key. \<^verbatim>\<open>find\<close> yields the first entry of the key, \<open>None\<close> standing
  for \<^verbatim>\<open>end()\<close>.
\<close>

record ('k, 'v) container =
  multi :: bool
  entries :: "('k \<times> 'v) list"

text \<open>
  Modelled from the spec: \<^verbatim>\<open>find\<close> of the container types that the missing header
  declares; the first entry of the key in the order of insertion.
\<close>

definition find_c :: "'k \<Rightarrow> ('k, 'v) container \<Rightarrow> 'v option" where
  "find_c k m = map_of (entries m) k"

text \<open>
  Modelled from the spec: \<^verbatim>\<open>insert\<close> of the container types that the missing header
  declares; it never replaces or removes an entry.
\<close>

definition insert_c :: "'k \<times> 'v \<Rightarrow> ('k, 'v) container \<Rightarrow> ('k, 'v) container" where
  "insert_c kv m =
     (if multi m then m\<lparr>entries := entries m @ [kv]\<rparr>
      else (case find_c (fst kv) m of
              Some present \<Rightarrow> m
            | None \<Rightarrow> m\<lparr>entries := entries m @ [kv]\<rparr>))"

text \<open>
  Modelled from the spec: a default-constructed container of the given kind.
\<close>

definition empty_c :: "bool \<Rightarrow> ('k, 'v) container" where
  "empty_c mm = \<lparr>multi = mm, entries = []\<rparr>"

subsection \<open>Collaborators\<close>

text \<open>
  \<^verbatim>\<open>lsst::pex::policy::Policy\<close> belongs to another package. Its two member functions
  that the registry calls are taken as parameters, with the signatures of the
  configuration collaborator contract: \<^verbatim>\<open>exists(key) -> bool\<close> and
  \<^verbatim>\<open>getPolicy(key) -> Policy::Ptr\<close>. A \<^verbatim>\<open>Policy::Ptr\<close> argument is a shared pointer
  that may be null: \<open>'p option\<close>.
\<close>

record 'p policy_api =
  exists :: "'p \<Rightarrow> string \<Rightarrow> bool"
  getPolicy :: "'p \<Rightarrow> string \<Rightarrow> 'p"

text \<open>
  \<^verbatim>\<open>Formatter::FactoryPtr\<close>: a function from a (possibly null) policy pointer to a
  formatter handle. The handle type \<open>'f\<close> is left open; whatever the factory does,
  including a failure of its own, is its result. A null factory pointer, which line 89
  would call, is not a value of the model.
\<close>

type_synonym ('p, 'f) factory = "'p option \<Rightarrow> 'f"

text \<open>
  The only exception class the file throws, with its message.
\<close>

datatype exception = InvalidParameter string

text \<open>
  The spec's names for the two failures: the exception thrown at lines 63-65 and the one
  thrown at lines 81-83.
\<close>

definition UnknownType :: "string \<Rightarrow> exception" where
  "UnknownType persistableType =
     InvalidParameter (''No Formatter registered for Persistable type: '' @ persistableType)"

definition UnknownFormatter :: "string \<Rightarrow> exception" where
  "UnknownFormatter persistableName =
     InvalidParameter (''No Formatter registered for Persistable name: '' @ persistableName)"

text \<open>
  What a lookup does to its collaborators, in the order of the calls.
\<close>

datatype 'p call =
    Exists_call string
  | GetPolicy_call string
  | Factory_call "'p option"

subsection \<open>The registry\<close>

record ('p, 'f) FormatterRegistry =
  byName :: "(string, ('p, 'f) factory) container"
  nameForType :: "(string, string) container"

text \<open>
  The default constructor (lines 94-97) leaves both containers empty. Its two arguments
  say which kind of container each typedef is. The base class \<^verbatim>\<open>Citizen\<close> and
  \<^verbatim>\<open>markPersistent\<close> keep no state that the registry reads.
\<close>

definition FormatterRegistry_new :: "bool \<Rightarrow> bool \<Rightarrow> ('p, 'f) FormatterRegistry" where
  "FormatterRegistry_new factoryMulti stringMulti =
     \<lparr>byName = empty_c factoryMulti, nameForType = empty_c stringMulti\<rparr>"

text \<open>
  \<^verbatim>\<open>registerFormatter\<close> (lines 44-50). The type identity is the string
  \<^verbatim>\<open>persistableType.name()\<close>.
\<close>

definition registerFormatter ::
  "string \<Rightarrow> string \<Rightarrow> ('p, 'f) factory \<Rightarrow> ('p, 'f) FormatterRegistry
     \<Rightarrow> ('p, 'f) FormatterRegistry" where
  "registerFormatter persistableName persistableType fac reg =
     (let reg1 = reg\<lparr>byName := insert_c (persistableName, fac) (byName reg)\<rparr>
      in reg1\<lparr>nameForType := insert_c (persistableType, persistableName) (nameForType reg1)\<rparr>)"

text \<open>
  Lines 85-88 of the lookup by name: the policy handed to the factory, with the calls
  made on the caller's policy. \<^verbatim>\<open>policy && policy->exists(name)\<close> does not call
  \<^verbatim>\<open>exists\<close> on a null pointer.
\<close>

definition formatterPolicy ::
  "'p policy_api \<Rightarrow> string \<Rightarrow> 'p option \<Rightarrow> 'p call list \<times> 'p option" where
  "formatterPolicy api persistableName policy =
     (case policy of
        None \<Rightarrow> ([], None)
      | Some p \<Rightarrow>
          if exists api p persistableName
          then ([Exists_call persistableName, GetPolicy_call persistableName],
                Some (getPolicy api p persistableName))
          else ([Exists_call persistableName], None))"

text \<open>
  \<^verbatim>\<open>lookupFormatter(std::string const&, Policy::Ptr)\<close> (lines 76-90).
\<close>

definition lookupFormatter_name ::
  "'p policy_api \<Rightarrow> ('p, 'f) FormatterRegistry \<Rightarrow> string \<Rightarrow> 'p option
     \<Rightarrow> 'p call list \<times> (exception + 'f)" where
  "lookupFormatter_name api reg persistableName policy =
     (case find_c persistableName (byName reg) of
        None \<Rightarrow>
          ([], Inl (InvalidParameter
                 (''No Formatter registered for Persistable name: '' @ persistableName)))
      | Some fac \<Rightarrow>
          (let (calls, fp) = formatterPolicy api persistableName policy
           in (calls @ [Factory_call fp], Inr (fac fp))))"

text \<open>
  \<^verbatim>\<open>lookupFormatter(std::type_info const&, Policy::Ptr)\<close> (lines 58-68).
\<close>

definition lookupFormatter_type ::
  "'p policy_api \<Rightarrow> ('p, 'f) FormatterRegistry \<Rightarrow> string \<Rightarrow> 'p option
     \<Rightarrow> 'p call list \<times> (exception + 'f)" where
  "lookupFormatter_type api reg persistableType policy =
     (case find_c persistableType (nameForType reg) of
        None \<Rightarrow>
          ([], Inl (InvalidParameter
                 (''No Formatter registered for Persistable type: '' @ persistableType)))
      | Some persistableName \<Rightarrow> lookupFormatter_name api reg persistableName policy)"

subsection \<open>Histories of operations on one registry\<close>

datatype ('p, 'f) operation =
    Register string string "('p, 'f) factory"
  | LookupByType string "'p option"
  | LookupByName string "'p option"

text \<open>
  One operation: the registry after it, and what a lookup returned.
\<close>

fun exec ::
  "'p policy_api \<Rightarrow> ('p, 'f) operation \<Rightarrow> ('p, 'f) FormatterRegistry
     \<Rightarrow> ('p, 'f) FormatterRegistry \<times> ('p call list \<times> (exception + 'f)) option" where
  "exec api (Register n t fac) reg = (registerFormatter n t fac reg, None)"
| "exec api (LookupByType t policy) reg = (reg, Some (lookupFormatter_type api reg t policy))"
| "exec api (LookupByName n policy) reg = (reg, Some (lookupFormatter_name api reg n policy))"

fun run ::
  "'p policy_api \<Rightarrow> ('p, 'f) operation list \<Rightarrow> ('p, 'f) FormatterRegistry
     \<Rightarrow> ('p, 'f) FormatterRegistry" where
  "run api [] reg = reg"
| "run api (x # xs) reg = run api xs (fst (exec api x reg))"

text \<open>
  The names, and the type identities, that a history has registered.
\<close>

fun registered_names :: "('p, 'f) operation list \<Rightarrow> string list" where
  "registered_names [] = []"
| "registered_names (Register n t fac # xs) = n # registered_names xs"
| "registered_names (x # xs) = registered_names xs"

fun registered_types :: "('p, 'f) operation list \<Rightarrow> string list" where
  "registered_types [] = []"
| "registered_types (Register n t fac # xs) = t # registered_types xs"
| "registered_types (x # xs) = registered_types xs"

subsection \<open>The singleton\<close>

text \<open>
  The process state that \<^verbatim>\<open>getInstance\<close> touches: the function-scoped static pointer
  \<^verbatim>\<open>registry\<close> (\<open>None\<close> until its initialiser has run) and the registry objects on the
  heap, an object's address being its index.
\<close>

record ('p, 'f) process =
  registry_static :: "nat option"
  heap :: "('p, 'f) FormatterRegistry list"

text \<open>
  \<^verbatim>\<open>getInstance\<close> (lines 33-36): the initialiser \<^verbatim>\<open>new FormatterRegistry\<close> runs on the
  first call only. The result is the address the returned reference refers to.
\<close>

definition getInstance ::
  "bool \<Rightarrow> bool \<Rightarrow> ('p, 'f) process \<Rightarrow> nat \<times> ('p, 'f) process" where
  "getInstance factoryMulti stringMulti pr =
     (case registry_static pr of
        Some a \<Rightarrow> (a, pr)
      | None \<Rightarrow>
          (let a = length (heap pr)
           in (a, pr\<lparr>registry_static := Some a,
                     heap := heap pr @ [FormatterRegistry_new factoryMulti stringMulti]\<rparr>)))"

text \<open>
  What the holders of a reference do with it. A reference obtained from
  \<^verbatim>\<open>getInstance\<close> is an address of the heap; a call through any other number changes
  nothing and returns nothing.
\<close>

datatype ('p, 'f) site_call =
    GetInstance
  | RegisterVia nat string string "('p, 'f) factory"
  | LookupByTypeVia nat string "'p option"
  | LookupByNameVia nat string "'p option"

datatype ('p, 'f) returned =
    Reference nat
  | Nothing
  | Lookup "'p call list \<times> (exception + 'f)"

fun site_exec ::
  "bool \<Rightarrow> bool \<Rightarrow> 'p policy_api \<Rightarrow> ('p, 'f) site_call \<Rightarrow> ('p, 'f) process
     \<Rightarrow> ('p, 'f) returned \<times> ('p, 'f) process" where
  "site_exec fm sm api GetInstance pr =
     (let (a, pr') = getInstance fm sm pr in (Reference a, pr'))"
| "site_exec fm sm api (RegisterVia a n t fac) pr =
     (if a < length (heap pr)
      then (Nothing, pr\<lparr>heap := (heap pr)[a := registerFormatter n t fac (heap pr ! a)]\<rparr>)
      else (Nothing, pr))"
| "site_exec fm sm api (LookupByTypeVia a t policy) pr =
     (if a < length (heap pr)
      then (Lookup (lookupFormatter_type api (heap pr ! a) t policy), pr)
      else (Nothing, pr))"
| "site_exec fm sm api (LookupByNameVia a n policy) pr =
     (if a < length (heap pr)
      then (Lookup (lookupFormatter_name api (heap pr ! a) n policy), pr)
      else (Nothing, pr))"

fun site_run ::
  "bool \<Rightarrow> bool \<Rightarrow> 'p policy_api \<Rightarrow> ('p, 'f) site_call list \<Rightarrow> ('p, 'f) process
     \<Rightarrow> ('p, 'f) process" where
  "site_run fm sm api [] pr = pr"
| "site_run fm sm api (c # cs) pr = site_run fm sm api cs (snd (site_exec fm sm api c pr))"

text \<open>
  The process before any call: the static is not initialised and no registry exists.
\<close>

definition process_start :: "('p, 'f) process" where
  "process_start = \<lparr>registry_static = None, heap = []\<rparr>"

subsection \<open>Consistency of the two containers\<close>

text \<open>
  Every name that the type-identity container advertises has an entry in the container
  of factories.
\<close>

definition names_have_factory :: "('p, 'f) FormatterRegistry \<Rightarrow> bool" where
  "names_have_factory reg =
     list_all (\<lambda>tn. find_c (snd tn) (byName reg) \<noteq> None) (entries (nameForType reg))"

subsection \<open>Example collaborators\<close>

text \<open>
  A small policy type and two factories to run the definitions on: a policy is a list
  of keyed sub-policies, and a formatter handle is a number with the policy the factory
  received.
\<close>

datatype tree = Tree "(string \<times> tree) list"

fun tree_exists :: "tree \<Rightarrow> string \<Rightarrow> bool" where
  "tree_exists (Tree kvs) k = (map_of kvs k \<noteq> None)"

fun tree_getPolicy :: "tree \<Rightarrow> string \<Rightarrow> tree" where
  "tree_getPolicy (Tree kvs) k = (case map_of kvs k of Some sub \<Rightarrow> sub | None \<Rightarrow> Tree [])"

definition tree_api :: "tree policy_api" where
  "tree_api = \<lparr>exists = tree_exists, getPolicy = tree_getPolicy\<rparr>"

definition factoryA :: "(tree, nat \<times> tree option) factory" where
  "factoryA policy = (1, policy)"

definition factoryB :: "(tree, nat \<times> tree option) factory" where
  "factoryB policy = (2, policy)"

definition fooConfig :: tree where
  "fooConfig = Tree [(''Foo'', Tree [(''depth'', Tree [])]), (''Bar'', Tree [])]"

section \<open>Properties\<close>

subsection \<open>Containers\<close>

lemma find_c_insert_c:
  "find_c k (insert_c (k', v) m) =
     (case find_c k m of Some x \<Rightarrow> Some x | None \<Rightarrow> if k = k' then Some v else None)"
  by (auto simp: find_c_def insert_c_def map_of_append map_add_def split: option.splits)

lemma find_c_empty_c: "find_c k (empty_c mm) = None"
  by (simp add: find_c_def empty_c_def)

lemma entries_insert_c:
  "entries (insert_c kv m) = entries m \<or> entries (insert_c kv m) = entries m @ [kv]"
  by (simp add: insert_c_def split: option.splits)

lemma multi_insert_c: "multi (insert_c kv m) = multi m"
  by (simp add: insert_c_def split: option.splits)

text \<open>
  The definitions that evaluating an example unfolds.
\<close>

lemmas example_defs =
  lookupFormatter_name_def lookupFormatter_type_def registerFormatter_def
  FormatterRegistry_new_def empty_c_def insert_c_def find_c_def formatterPolicy_def
  tree_api_def fooConfig_def factoryA_def factoryB_def Let_def
  UnknownType_def UnknownFormatter_def

subsection \<open>Lookups that find their entry\<close>

lemma formatterPolicy_cases:
  "formatterPolicy api n None = ([], None)"
  "exists api p n \<Longrightarrow> formatterPolicy api n (Some p) =
     ([Exists_call n, GetPolicy_call n], Some (getPolicy api p n))"
  "\<not> exists api p n \<Longrightarrow> formatterPolicy api n (Some p) = ([Exists_call n], None)"
  by (simp_all add: formatterPolicy_def)

lemma lookupFormatter_name_found:
  "find_c n (byName reg) = Some fac \<Longrightarrow>
     lookupFormatter_name api reg n policy =
       (fst (formatterPolicy api n policy) @
          [Factory_call (snd (formatterPolicy api n policy))],
        Inr (fac (snd (formatterPolicy api n policy))))"
  by (simp add: lookupFormatter_name_def split: prod.splits)

lemma lookupFormatter_type_found:
  "find_c t (nameForType reg) = Some n \<Longrightarrow>
     lookupFormatter_type api reg t policy = lookupFormatter_name api reg n policy"
  by (simp add: lookupFormatter_type_def)

subsection \<open>Registration and histories\<close>

lemma byName_registerFormatter:
  "find_c k (byName (registerFormatter n t fac reg)) =
     (case find_c k (byName reg) of
        Some x \<Rightarrow> Some x
      | None \<Rightarrow> if k = n then Some fac else None)"
  by (simp add: registerFormatter_def Let_def find_c_insert_c)

lemma nameForType_registerFormatter:
  "find_c k (nameForType (registerFormatter n t fac reg)) =
     (case find_c k (nameForType reg) of
        Some x \<Rightarrow> Some x
      | None \<Rightarrow> if k = t then Some n else None)"
  by (simp add: registerFormatter_def Let_def find_c_insert_c)

lemma run_append: "run api (xs @ ys) reg = run api ys (run api xs reg)"
  by (induction xs arbitrary: reg) simp_all

lemma byName_run_kept:
  "find_c k (byName reg) = Some x \<Longrightarrow> find_c k (byName (run api ops reg)) = Some x"
proof (induction ops arbitrary: reg)
  case Nil
  then show ?case by simp
next
  case (Cons a ops)
  then show ?case by (cases a) (simp_all add: byName_registerFormatter)
qed

lemma nameForType_run_kept:
  "find_c k (nameForType reg) = Some x \<Longrightarrow>
     find_c k (nameForType (run api ops reg)) = Some x"
proof (induction ops arbitrary: reg)
  case Nil
  then show ?case by simp
next
  case (Cons a ops)
  then show ?case by (cases a) (simp_all add: nameForType_registerFormatter)
qed

lemma byName_run_fresh:
  "k \<notin> set (registered_names ops) \<Longrightarrow>
     find_c k (byName (run api ops reg)) = find_c k (byName reg)"
proof (induction ops arbitrary: reg)
  case Nil
  then show ?case by simp
next
  case (Cons a ops)
  then show ?case
    by (cases a) (simp_all add: byName_registerFormatter split: option.splits)
qed

lemma nameForType_run_fresh:
  "k \<notin> set (registered_types ops) \<Longrightarrow>
     find_c k (nameForType (run api ops reg)) = find_c k (nameForType reg)"
proof (induction ops arbitrary: reg)
  case Nil
  then show ?case by simp
next
  case (Cons a ops)
  then show ?case
    by (cases a) (simp_all add: nameForType_registerFormatter split: option.splits)
qed

lemma byName_new: "find_c k (byName (FormatterRegistry_new fm sm)) = None"
  by (simp add: FormatterRegistry_new_def find_c_empty_c)

lemma nameForType_new: "find_c k (nameForType (FormatterRegistry_new fm sm)) = None"
  by (simp add: FormatterRegistry_new_def find_c_empty_c)

subsection \<open>Lookups that fail\<close>

text \<open>
  C2. In the registry reached by any history of registrations and lookups from the
  freshly constructed one, a lookup by a type identity that the history never registered
  throws the exception of lines 63-65 (\<open>UnknownType\<close>), whatever policy pointer is
  passed (null or not) and whatever the policy answers; no collaborator is called.
\<close>

theorem unknown_type_fails:
  "t \<notin> set (registered_types ops) \<Longrightarrow>
     lookupFormatter_type api (run api ops (FormatterRegistry_new fm sm)) t policy =
       ([], Inl (UnknownType t))"
  by (simp add: lookupFormatter_type_def nameForType_run_fresh nameForType_new
      UnknownType_def)

theorem unknown_type_fails_witness:
  "''T3'' \<notin> set (registered_types
       [Register ''Foo'' ''T1'' factoryA, LookupByName ''Foo'' None,
        Register ''Dup'' ''T2'' factoryB]) \<and>
   lookupFormatter_type tree_api
     (run tree_api
        [Register ''Foo'' ''T1'' factoryA, LookupByName ''Foo'' None,
         Register ''Dup'' ''T2'' factoryB]
        (FormatterRegistry_new False False))
     ''T3'' (Some fooConfig) = ([], Inl (UnknownType ''T3''))"
  using unknown_type_fails
    [of "''T3''"
        "[Register ''Foo'' ''T1'' factoryA, LookupByName ''Foo'' None,
          Register ''Dup'' ''T2'' factoryB]"
        tree_api False False "Some fooConfig"]
  by simp

text \<open>
  C3. In the registry reached by any history from the freshly constructed one, a lookup
  by a name that the history never registered throws the exception of lines 81-83
  (\<open>UnknownFormatter\<close>), whatever policy pointer is passed; no collaborator is called.
\<close>

theorem unknown_name_fails:
  "n \<notin> set (registered_names ops) \<Longrightarrow>
     lookupFormatter_name api (run api ops (FormatterRegistry_new fm sm)) n policy =
       ([], Inl (UnknownFormatter n))"
  by (simp add: lookupFormatter_name_def byName_run_fresh byName_new
      UnknownFormatter_def)

theorem unknown_name_fails_witness:
  "''Baz'' \<notin> set (registered_names
       [Register ''Foo'' ''T1'' factoryA, LookupByType ''T1'' (Some fooConfig),
        Register ''Dup'' ''T2'' factoryB]) \<and>
   lookupFormatter_name tree_api
     (run tree_api
        [Register ''Foo'' ''T1'' factoryA, LookupByType ''T1'' (Some fooConfig),
         Register ''Dup'' ''T2'' factoryB]
        (FormatterRegistry_new True True))
     ''Baz'' (Some fooConfig) = ([], Inl (UnknownFormatter ''Baz''))"
  using unknown_name_fails
    [of "''Baz''"
        "[Register ''Foo'' ''T1'' factoryA, LookupByType ''T1'' (Some fooConfig),
          Register ''Dup'' ''T2'' factoryB]"
        tree_api True True "Some fooConfig"]
  by simp

text \<open>
  C10. A lookup that fails, by name (the name is absent from the container of
  factories) or by type identity (the identity is absent, or the name it resolves to
  is), has made no call at all: neither \<^verbatim>\<open>exists\<close> nor \<^verbatim>\<open>getPolicy\<close> on the caller's
  policy, nor any factory. A lookup that succeeds has called a factory last.
\<close>

theorem failing_lookup_calls_nothing:
  "(isl (snd (lookupFormatter_name api reg n policy)) \<longrightarrow>
      fst (lookupFormatter_name api reg n policy) = []) \<and>
   (isl (snd (lookupFormatter_type api reg t policy)) \<longrightarrow>
      fst (lookupFormatter_type api reg t policy) = []) \<and>
   (\<not> isl (snd (lookupFormatter_name api reg n policy)) \<longrightarrow>
      (\<exists>calls fp. fst (lookupFormatter_name api reg n policy) = calls @ [Factory_call fp])) \<and>
   (\<not> isl (snd (lookupFormatter_type api reg t policy)) \<longrightarrow>
      (\<exists>calls fp. fst (lookupFormatter_type api reg t policy) = calls @ [Factory_call fp]))"
  by (auto simp: lookupFormatter_name_def lookupFormatter_type_def
      split: option.splits prod.splits)

theorem failing_lookup_calls_nothing_witness:
  "isl (snd (lookupFormatter_name tree_api
        (registerFormatter ''Foo'' ''T1'' factoryA (FormatterRegistry_new False False))
        ''Bar'' (Some fooConfig))) \<and>
   fst (lookupFormatter_name tree_api
        (registerFormatter ''Foo'' ''T1'' factoryA (FormatterRegistry_new False False))
        ''Bar'' (Some fooConfig)) = [] \<and>
   isl (snd (lookupFormatter_type tree_api
        (registerFormatter ''Foo'' ''T1'' factoryA (FormatterRegistry_new False False))
        ''T2'' (Some fooConfig))) \<and>
   fst (lookupFormatter_type tree_api
        (registerFormatter ''Foo'' ''T1'' factoryA (FormatterRegistry_new False False))
        ''T2'' (Some fooConfig)) = [] \<and>
   \<not> isl (snd (lookupFormatter_name tree_api
        (registerFormatter ''Foo'' ''T1'' factoryA (FormatterRegistry_new False False))
        ''Foo'' (Some fooConfig))) \<and>
   fst (lookupFormatter_name tree_api
        (registerFormatter ''Foo'' ''T1'' factoryA (FormatterRegistry_new False False))
        ''Foo'' (Some fooConfig)) =
     [Exists_call ''Foo'', GetPolicy_call ''Foo'',
      Factory_call (Some (Tree [(''depth'', Tree [])]))] \<and>
   \<not> isl (snd (lookupFormatter_type tree_api
        (registerFormatter ''Foo'' ''T1'' factoryA (FormatterRegistry_new False False))
        ''T1'' None)) \<and>
   fst (lookupFormatter_type tree_api
        (registerFormatter ''Foo'' ''T1'' factoryA (FormatterRegistry_new False False))
        ''T1'' None) = [Factory_call None]"
  using failing_lookup_calls_nothing
    [of tree_api "registerFormatter ''Foo'' ''T1'' factoryA (FormatterRegistry_new False False)"
        "''Bar''" "Some fooConfig" "''T2''"]
    failing_lookup_calls_nothing
    [of tree_api "registerFormatter ''Foo'' ''T1'' factoryA (FormatterRegistry_new False False)"
        "''Foo''" "Some fooConfig" "''T1''"]
  by (simp add: example_defs)

text \<open>
  C7. A lookup by a type identity that has no entry and a lookup by a name that has no
  entry, in any two registries and with any policies, throw different values: the first
  is \<open>UnknownType\<close> of the identity, the second \<open>UnknownFormatter\<close> of the name, and the
  two are never equal. Both are of the one class \<^verbatim>\<open>InvalidParameter\<close>; what tells them
  apart is the message, "... Persistable type: " against "... Persistable name: ".
\<close>

theorem errors_distinguishable:
  "find_c t (nameForType reg) = None \<Longrightarrow> find_c n (byName reg') = None \<Longrightarrow>
     snd (lookupFormatter_type api reg t policy) = Inl (UnknownType t) \<and>
     snd (lookupFormatter_name api reg' n policy') = Inl (UnknownFormatter n) \<and>
     snd (lookupFormatter_type api reg t policy) \<noteq>
       snd (lookupFormatter_name api reg' n policy')"
  by (simp add: lookupFormatter_type_def lookupFormatter_name_def UnknownType_def
      UnknownFormatter_def)

theorem errors_distinguishable_witness:
  "find_c ''T2'' (nameForType (registerFormatter ''Foo'' ''T1'' factoryA
        (FormatterRegistry_new False False))) = None \<and>
   find_c ''T2'' (byName (registerFormatter ''Foo'' ''T1'' factoryA
        (FormatterRegistry_new False False))) = None \<and>
   snd (lookupFormatter_type tree_api
        (registerFormatter ''Foo'' ''T1'' factoryA (FormatterRegistry_new False False))
        ''T2'' None) =
     Inl (InvalidParameter ''No Formatter registered for Persistable type: T2'') \<and>
   snd (lookupFormatter_name tree_api
        (registerFormatter ''Foo'' ''T1'' factoryA (FormatterRegistry_new False False))
        ''T2'' None) =
     Inl (InvalidParameter ''No Formatter registered for Persistable name: T2'')"
  using errors_distinguishable
    [of "''T2''" "registerFormatter ''Foo'' ''T1'' factoryA (FormatterRegistry_new False False)"
        "''T2''" "registerFormatter ''Foo'' ''T1'' factoryA (FormatterRegistry_new False False)"
        tree_api None None]
  by (simp add: example_defs)

subsection \<open>The policy handed to the factory\<close>

text \<open>
  C4. For a name whose entry in the container of factories is \<open>fac\<close>: with a policy on
  which \<^verbatim>\<open>exists(name)\<close> holds, the lookup by name calls \<^verbatim>\<open>exists\<close>, then
  \<^verbatim>\<open>getPolicy(name)\<close>, then \<open>fac\<close> on exactly what \<^verbatim>\<open>getPolicy(name)\<close> returned, and
  returns the factory's result; with a policy on which \<^verbatim>\<open>exists(name)\<close> does not hold,
  or with a null policy pointer, \<open>fac\<close> is called on the null pointer and
  \<^verbatim>\<open>getPolicy\<close> is not called.
\<close>

theorem config_pass_through:
  "find_c n (byName reg) = Some fac \<Longrightarrow>
     (exists api p n \<longrightarrow>
        lookupFormatter_name api reg n (Some p) =
          ([Exists_call n, GetPolicy_call n, Factory_call (Some (getPolicy api p n))],
           Inr (fac (Some (getPolicy api p n))))) \<and>
     (\<not> exists api p n \<longrightarrow>
        lookupFormatter_name api reg n (Some p) =
          ([Exists_call n, Factory_call None], Inr (fac None))) \<and>
     lookupFormatter_name api reg n None = ([Factory_call None], Inr (fac None))"
  by (simp add: lookupFormatter_name_found formatterPolicy_cases)

theorem config_pass_through_witness:
  "find_c ''Foo'' (byName (registerFormatter ''Foo'' ''T1'' factoryA
        (FormatterRegistry_new False False))) = Some factoryA \<and>
   exists tree_api fooConfig ''Foo'' \<and>
   lookupFormatter_name tree_api
     (registerFormatter ''Foo'' ''T1'' factoryA (FormatterRegistry_new False False))
     ''Foo'' (Some fooConfig) =
       ([Exists_call ''Foo'', GetPolicy_call ''Foo'',
         Factory_call (Some (Tree [(''depth'', Tree [])]))],
        Inr (1, Some (Tree [(''depth'', Tree [])]))) \<and>
   \<not> exists tree_api (Tree [(''Bar'', Tree [])]) ''Foo'' \<and>
   lookupFormatter_name tree_api
     (registerFormatter ''Foo'' ''T1'' factoryA (FormatterRegistry_new False False))
     ''Foo'' (Some (Tree [(''Bar'', Tree [])])) =
       ([Exists_call ''Foo'', Factory_call None], Inr (1, None)) \<and>
   lookupFormatter_name tree_api
     (registerFormatter ''Foo'' ''T1'' factoryA (FormatterRegistry_new False False))
     ''Foo'' None = ([Factory_call None], Inr (1, None))"
  using config_pass_through
    [of "''Foo''" "registerFormatter ''Foo'' ''T1'' factoryA (FormatterRegistry_new False False)"
        factoryA tree_api fooConfig]
    config_pass_through
    [of "''Foo''" "registerFormatter ''Foo'' ''T1'' factoryA (FormatterRegistry_new False False)"
        factoryA tree_api "Tree [(''Bar'', Tree [])]"]
  by (simp add: byName_registerFormatter byName_new tree_api_def fooConfig_def factoryA_def)

subsection \<open>The consistency of the containers is an invariant\<close>

lemma names_have_factory_iff:
  "names_have_factory reg \<longleftrightarrow>
     (\<forall>tn \<in> set (entries (nameForType reg)). find_c (snd tn) (byName reg) \<noteq> None)"
  by (simp add: names_have_factory_def list_all_iff)

lemma names_have_factory_registerFormatter:
  assumes "names_have_factory reg"
  shows "names_have_factory (registerFormatter n t fac reg)"
proof -
  let ?reg' = "registerFormatter n t fac reg"
  have sub: "set (entries (nameForType ?reg')) \<subseteq> insert (t, n) (set (entries (nameForType reg)))"
    using entries_insert_c [of "(t, n)" "nameForType reg"]
    by (auto simp: registerFormatter_def Let_def)
  have new: "find_c n (byName ?reg') \<noteq> None"
    by (simp add: byName_registerFormatter split: option.splits)
  have old: "find_c k (byName reg) \<noteq> None \<Longrightarrow> find_c k (byName ?reg') \<noteq> None" for k
    by (auto simp: byName_registerFormatter split: option.splits)
  show ?thesis
    unfolding names_have_factory_iff
  proof
    fix tn assume "tn \<in> set (entries (nameForType ?reg'))"
    then consider "tn = (t, n)" | "tn \<in> set (entries (nameForType reg))"
      using sub by auto
    then show "find_c (snd tn) (byName ?reg') \<noteq> None"
    proof cases
      case 1
      then show ?thesis using new by simp
    next
      case 2
      then have "find_c (snd tn) (byName reg) \<noteq> None"
        using assms unfolding names_have_factory_iff by blast
      then show ?thesis by (rule old)
    qed
  qed
qed

lemma names_have_factory_run:
  "names_have_factory reg \<Longrightarrow> names_have_factory (run api ops reg)"
proof (induction ops arbitrary: reg)
  case Nil
  then show ?case by simp
next
  case (Cons a ops)
  then show ?case by (cases a) (simp_all add: names_have_factory_registerFormatter)
qed

lemma names_have_factory_new: "names_have_factory (FormatterRegistry_new fm sm)"
  by (simp add: names_have_factory_def FormatterRegistry_new_def empty_c_def)

lemma names_have_factory_find:
  assumes inv: "names_have_factory reg" and t: "find_c t (nameForType reg) = Some n"
  shows "\<exists>fac. find_c n (byName reg) = Some fac"
proof -
  from t have "(t, n) \<in> set (entries (nameForType reg))"
    by (simp add: find_c_def map_of_SomeD)
  with inv have "find_c (snd (t, n)) (byName reg) \<noteq> None"
    unfolding names_have_factory_iff by blast
  then show ?thesis by auto
qed

text \<open>
  C6. In the registry reached from the freshly constructed one by any history of
  registrations and lookups, every name that an entry of the type-identity container
  carries has an entry in the container of factories.
\<close>

theorem advertised_names_have_factories:
  "names_have_factory (run api ops (FormatterRegistry_new fm sm))"
  by (rule names_have_factory_run) (rule names_have_factory_new)

theorem advertised_names_have_factories_witness:
  "names_have_factory
     (run tree_api
        [Register ''Foo'' ''T1'' factoryA, LookupByType ''T1'' None,
         Register ''Bar'' ''T1'' factoryB, Register ''Foo'' ''T2'' factoryB]
        (FormatterRegistry_new False False)) \<and>
   entries (nameForType
     (run tree_api
        [Register ''Foo'' ''T1'' factoryA, LookupByType ''T1'' None,
         Register ''Bar'' ''T1'' factoryB, Register ''Foo'' ''T2'' factoryB]
        (FormatterRegistry_new False False))) = [(''T1'', ''Foo''), (''T2'', ''Foo'')] \<and>
   map fst (entries (byName
     (run tree_api
        [Register ''Foo'' ''T1'' factoryA, LookupByType ''T1'' None,
         Register ''Bar'' ''T1'' factoryB, Register ''Foo'' ''T2'' factoryB]
        (FormatterRegistry_new False False)))) = [''Foo'', ''Bar'']"
  using advertised_names_have_factories
    [of tree_api
        "[Register ''Foo'' ''T1'' factoryA, LookupByType ''T1'' None,
          Register ''Bar'' ''T1'' factoryB, Register ''Foo'' ''T2'' factoryB]"
        False False]
  by (simp add: example_defs)

subsection \<open>Which factory a lookup invokes\<close>

lemma byName_first_registration:
  "n \<notin> set (registered_names before) \<Longrightarrow>
     find_c n (byName (run api (before @ Register n t fac # after)
        (FormatterRegistry_new fm sm))) = Some fac"
  by (simp add: run_append byName_run_kept byName_registerFormatter byName_run_fresh
      byName_new)

lemma nameForType_first_registration:
  "t \<notin> set (registered_types before) \<Longrightarrow>
     find_c t (nameForType (run api (before @ Register n t fac # after)
        (FormatterRegistry_new fm sm))) = Some n"
  by (simp add: run_append nameForType_run_kept nameForType_registerFormatter
      nameForType_run_fresh nameForType_new)

lemma byName_registered:
  "\<exists>fac'. find_c n (byName (run api (before @ Register n t fac # after) reg)) = Some fac'"
proof -
  have "\<exists>fac'. find_c n (byName (registerFormatter n t fac (run api before reg))) = Some fac'"
    by (simp add: byName_registerFormatter split: option.splits)
  then show ?thesis
    by (auto simp: run_append byName_run_kept)
qed

lemma nameForType_registered:
  "\<exists>n'. find_c t (nameForType (run api (before @ Register n t fac # after) reg)) = Some n'"
proof -
  have "\<exists>n'. find_c t (nameForType (registerFormatter n t fac (run api before reg))) = Some n'"
    by (simp add: nameForType_registerFormatter split: option.splits)
  then show ?thesis
    by (auto simp: run_append nameForType_run_kept)
qed

text \<open>
  C5. When a history registers \<open>fac1\<close> under a name that no earlier operation of the
  history registered, and later registers \<open>fac2\<close> under the same name, then after the
  whole history (whatever else it contains) a lookup by that name returns the result of
  \<open>fac1\<close>, applied to the policy that lines 85-88 extract. The lookup is a function of
  the registry, the name and the policy, so the result is determined. Nothing is assumed
  about \<open>fac2\<close>, which may differ from \<open>fac1\<close>.
\<close>

theorem first_match_wins:
  "n \<notin> set (registered_names before) \<Longrightarrow>
     snd (lookupFormatter_name api
            (run api (before @ Register n t1 fac1 # between @ Register n t2 fac2 # after)
               (FormatterRegistry_new fm sm))
            n policy)
       = Inr (fac1 (snd (formatterPolicy api n policy)))"
  using byName_first_registration
    [of n before api t1 fac1 "between @ Register n t2 fac2 # after" fm sm]
  by (simp add: lookupFormatter_name_found)

theorem first_match_wins_witness:
  "''Dup'' \<notin> set (registered_names [Register ''Foo'' ''T0'' factoryB]) \<and>
   factoryA \<noteq> factoryB \<and>
   snd (lookupFormatter_name tree_api
          (run tree_api
             ([Register ''Foo'' ''T0'' factoryB] @ Register ''Dup'' ''T1'' factoryA #
              [LookupByName ''Dup'' None] @ Register ''Dup'' ''T2'' factoryB # [])
             (FormatterRegistry_new True True))
          ''Dup'' None) = Inr (1, None)"
  using first_match_wins
    [of "''Dup''" "[Register ''Foo'' ''T0'' factoryB]" tree_api "''T1''" factoryA
        "[LookupByName ''Dup'' None]" "''T2''" factoryB "[]" True True None]
  by (simp add: formatterPolicy_def factoryA_def factoryB_def fun_eq_iff)

text \<open>
  C1, as the code has it. After a history that contains the registration of
  \<open>(n, t, fac)\<close>, the lookup by \<open>n\<close> and the lookup by \<open>t\<close> both return a formatter
  handle and throw nothing. The handle of the lookup by \<open>n\<close> is the result of \<open>fac\<close> when
  no earlier operation registered \<open>n\<close>; the handle of the lookup by \<open>t\<close> is the result of
  \<open>fac\<close> when no earlier operation registered \<open>n\<close> or \<open>t\<close>.
\<close>

theorem registered_then_found:
  "(\<exists>h. snd (lookupFormatter_name api
            (run api (before @ Register n t fac # after) (FormatterRegistry_new fm sm))
            n policy) = Inr h) \<and>
   (\<exists>h. snd (lookupFormatter_type api
            (run api (before @ Register n t fac # after) (FormatterRegistry_new fm sm))
            t policy) = Inr h) \<and>
   (n \<notin> set (registered_names before) \<longrightarrow>
      snd (lookupFormatter_name api
            (run api (before @ Register n t fac # after) (FormatterRegistry_new fm sm))
            n policy) = Inr (fac (snd (formatterPolicy api n policy)))) \<and>
   (n \<notin> set (registered_names before) \<and> t \<notin> set (registered_types before) \<longrightarrow>
      snd (lookupFormatter_type api
            (run api (before @ Register n t fac # after) (FormatterRegistry_new fm sm))
            t policy) = Inr (fac (snd (formatterPolicy api n policy))))"
proof -
  let ?reg = "run api (before @ Register n t fac # after) (FormatterRegistry_new fm sm)"
  obtain fac' where f: "find_c n (byName ?reg) = Some fac'"
    using byName_registered by blast
  obtain n' where t: "find_c t (nameForType ?reg) = Some n'"
    using nameForType_registered by blast
  have "names_have_factory ?reg"
    by (rule names_have_factory_run) (rule names_have_factory_new)
  then obtain fac'' where f': "find_c n' (byName ?reg) = Some fac''"
    using t names_have_factory_find by blast
  have 1: "\<exists>h. snd (lookupFormatter_name api ?reg n policy) = Inr h"
    by (simp add: lookupFormatter_name_found [OF f])
  have 2: "\<exists>h. snd (lookupFormatter_type api ?reg t policy) = Inr h"
    by (simp add: lookupFormatter_type_found [OF t] lookupFormatter_name_found [OF f'])
  have 3: "snd (lookupFormatter_name api ?reg n policy)
       = Inr (fac (snd (formatterPolicy api n policy)))"
    if "n \<notin> set (registered_names before)"
    using byName_first_registration [OF that, of api t fac after fm sm]
    by (simp add: lookupFormatter_name_found)
  have 4: "snd (lookupFormatter_type api ?reg t policy)
       = Inr (fac (snd (formatterPolicy api n policy)))"
    if "n \<notin> set (registered_names before)" "t \<notin> set (registered_types before)"
    using byName_first_registration [OF that(1), of api t fac after fm sm]
      nameForType_first_registration [OF that(2), of api n fac after fm sm]
    by (simp add: lookupFormatter_type_found lookupFormatter_name_found)
  show ?thesis using 1 2 3 4 by blast
qed

theorem registered_then_found_witness:
  "''Foo'' \<notin> set (registered_names [Register ''Bar'' ''T0'' factoryB]) \<and>
   ''T1'' \<notin> set (registered_types [Register ''Bar'' ''T0'' factoryB]) \<and>
   snd (lookupFormatter_name tree_api
          (run tree_api
             ([Register ''Bar'' ''T0'' factoryB] @ Register ''Foo'' ''T1'' factoryA #
              [Register ''Foo'' ''T1'' factoryB])
             (FormatterRegistry_new False False))
          ''Foo'' None) = Inr (1, None) \<and>
   snd (lookupFormatter_type tree_api
          (run tree_api
             ([Register ''Bar'' ''T0'' factoryB] @ Register ''Foo'' ''T1'' factoryA #
              [Register ''Foo'' ''T1'' factoryB])
             (FormatterRegistry_new False False))
          ''T1'' None) = Inr (1, None)"
  using registered_then_found
    [of tree_api "[Register ''Bar'' ''T0'' factoryB]" "''Foo''" "''T1''" factoryA
        "[Register ''Foo'' ''T1'' factoryB]" False False None]
  by (simp add: formatterPolicy_def factoryA_def)

text \<open>
  C1 as it is stated fails at a name registered twice. Take the registration of
  \<open>(''Dup'', ''T2'', factoryB)\<close> after that of
  \<open>(''Dup'', ''T1'', factoryA)\<close>: neither the lookup by \<open>''Dup''\<close> nor the lookup by
  \<open>''T2''\<close> returns the result of \<open>factoryB\<close>, the factory of the second triple, be the
  containers maps or multi-maps.
\<close>

theorem later_factory_not_returned:
  "snd (lookupFormatter_name tree_api
          (registerFormatter ''Dup'' ''T2'' factoryB
             (registerFormatter ''Dup'' ''T1'' factoryA (FormatterRegistry_new False False)))
          ''Dup'' None) \<noteq> Inr (factoryB None) \<and>
   snd (lookupFormatter_type tree_api
          (registerFormatter ''Dup'' ''T2'' factoryB
             (registerFormatter ''Dup'' ''T1'' factoryA (FormatterRegistry_new False False)))
          ''T2'' None) \<noteq> Inr (factoryB None) \<and>
   snd (lookupFormatter_name tree_api
          (registerFormatter ''Dup'' ''T2'' factoryB
             (registerFormatter ''Dup'' ''T1'' factoryA (FormatterRegistry_new True True)))
          ''Dup'' None) \<noteq> Inr (factoryB None) \<and>
   snd (lookupFormatter_type tree_api
          (registerFormatter ''Dup'' ''T2'' factoryB
             (registerFormatter ''Dup'' ''T1'' factoryA (FormatterRegistry_new True True)))
          ''T2'' None) \<noteq> Inr (factoryB None)"
  by (simp add: lookupFormatter_name_def lookupFormatter_type_def byName_registerFormatter
      nameForType_registerFormatter byName_new nameForType_new formatterPolicy_def
      factoryA_def factoryB_def)

subsection \<open>What the operations change\<close>

lemma entries_run_byName:
  "\<exists>added. entries (byName (run api ops reg)) = entries (byName reg) @ added"
proof (induction ops arbitrary: reg)
  case Nil
  then show ?case by simp
next
  case (Cons a ops)
  obtain added where 1: "entries (byName (run api ops (fst (exec api a reg)))) =
     entries (byName (fst (exec api a reg))) @ added"
    using Cons.IH by blast
  have "\<exists>one. entries (byName (fst (exec api a reg))) = entries (byName reg) @ one"
    by (cases a) (auto simp: registerFormatter_def Let_def insert_c_def split: option.splits)
  then show ?case using 1 by auto
qed

lemma entries_run_nameForType:
  "\<exists>added. entries (nameForType (run api ops reg)) = entries (nameForType reg) @ added"
proof (induction ops arbitrary: reg)
  case Nil
  then show ?case by simp
next
  case (Cons a ops)
  obtain added where 1: "entries (nameForType (run api ops (fst (exec api a reg)))) =
     entries (nameForType (fst (exec api a reg))) @ added"
    using Cons.IH by blast
  have "\<exists>one. entries (nameForType (fst (exec api a reg))) = entries (nameForType reg) @ one"
    by (cases a) (auto simp: registerFormatter_def Let_def insert_c_def split: option.splits)
  then show ?case using 1 by auto
qed

text \<open>
  C8. A lookup, by type identity or by name, whatever it returns or throws, leaves the
  registry as it was. A registration leaves the entries of each container in place and
  either adds nothing (a map that has the key already) or adds the one new entry after
  them; the kind of each container stays. Hence over any history the entries a registry
  started with remain, unchanged and in order, at the front of each container.
\<close>

theorem lookups_read_registrations_append:
  "fst (exec api (LookupByType t policy) reg) = reg \<and>
   fst (exec api (LookupByName n policy) reg) = reg \<and>
   (entries (byName (registerFormatter n t fac reg)) = entries (byName reg) \<or>
    entries (byName (registerFormatter n t fac reg)) = entries (byName reg) @ [(n, fac)]) \<and>
   (entries (nameForType (registerFormatter n t fac reg)) = entries (nameForType reg) \<or>
    entries (nameForType (registerFormatter n t fac reg)) =
      entries (nameForType reg) @ [(t, n)]) \<and>
   multi (byName (registerFormatter n t fac reg)) = multi (byName reg) \<and>
   multi (nameForType (registerFormatter n t fac reg)) = multi (nameForType reg) \<and>
   (\<exists>added. entries (byName (run api ops reg)) = entries (byName reg) @ added) \<and>
   (\<exists>added. entries (nameForType (run api ops reg)) = entries (nameForType reg) @ added)"
  using entries_insert_c [of "(n, fac)" "byName reg"]
    entries_insert_c [of "(t, n)" "nameForType reg"]
    entries_run_byName [of api ops reg] entries_run_nameForType [of api ops reg]
  by (simp add: registerFormatter_def Let_def multi_insert_c)

theorem lookups_read_registrations_append_witness:
  "fst (exec tree_api (LookupByType ''T1'' (Some fooConfig))
      (registerFormatter ''Foo'' ''T1'' factoryA (FormatterRegistry_new False True))) =
     registerFormatter ''Foo'' ''T1'' factoryA (FormatterRegistry_new False True) \<and>
   entries (byName (registerFormatter ''Foo'' ''T1'' factoryB
      (registerFormatter ''Foo'' ''T1'' factoryA (FormatterRegistry_new False True)))) =
     [(''Foo'', factoryA)] \<and>
   entries (nameForType (registerFormatter ''Foo'' ''T1'' factoryB
      (registerFormatter ''Foo'' ''T1'' factoryA (FormatterRegistry_new False True)))) =
     [(''T1'', ''Foo''), (''T1'', ''Foo'')]"
  using lookups_read_registrations_append
    [of tree_api "''T1''" "Some fooConfig"
        "registerFormatter ''Foo'' ''T1'' factoryA (FormatterRegistry_new False True)"
        "''Foo''" factoryB "[]"]
  by (simp add: example_defs)

subsection \<open>The singleton accessor\<close>

lemma getInstance_first:
  "registry_static pr = None \<Longrightarrow>
     getInstance fm sm pr =
       (length (heap pr),
        pr\<lparr>registry_static := Some (length (heap pr)),
           heap := heap pr @ [FormatterRegistry_new fm sm]\<rparr>)"
  by (simp add: getInstance_def Let_def)

lemma getInstance_later:
  "registry_static pr = Some a \<Longrightarrow> getInstance fm sm pr = (a, pr)"
  by (simp add: getInstance_def)

lemma site_exec_static:
  "registry_static pr = Some a \<Longrightarrow>
     registry_static (snd (site_exec fm sm api c pr)) = Some a"
  by (cases c) (simp_all add: getInstance_later)

lemma site_run_static:
  "registry_static pr = Some a \<Longrightarrow> registry_static (site_run fm sm api cs pr) = Some a"
proof (induction cs arbitrary: pr)
  case Nil
  then show ?case by simp
next
  case (Cons c cs)
  then show ?case by (simp add: site_exec_static)
qed

lemma site_exec_kept:
  assumes "a < length (heap pr)" and "find_c k (byName (heap pr ! a)) = Some x"
  shows "a < length (heap (snd (site_exec fm sm api c pr))) \<and>
         find_c k (byName (heap (snd (site_exec fm sm api c pr)) ! a)) = Some x"
proof (cases c)
  case GetInstance
  then show ?thesis
    using assms
    by (cases "registry_static pr") (simp_all add: getInstance_def Let_def nth_append)
next
  case (RegisterVia a' n t fac)
  then show ?thesis
    using assms
    by (cases "a' = a") (simp_all add: byName_registerFormatter)
next
  case (LookupByTypeVia a' t policy)
  then show ?thesis using assms by simp
next
  case (LookupByNameVia a' n policy)
  then show ?thesis using assms by simp
qed

lemma site_run_kept:
  "a < length (heap pr) \<Longrightarrow> find_c k (byName (heap pr ! a)) = Some x \<Longrightarrow>
     a < length (heap (site_run fm sm api cs pr)) \<and>
     find_c k (byName (heap (site_run fm sm api cs pr) ! a)) = Some x"
proof (induction cs arbitrary: pr)
  case Nil
  then show ?case by simp
next
  case (Cons c cs)
  from site_exec_kept [OF Cons.prems, of fm sm api c]
  show ?case by (simp add: Cons.IH)
qed

lemma site_run_length:
  "a < length (heap pr) \<Longrightarrow> a < length (heap (site_run fm sm api cs pr))"
proof (induction cs arbitrary: pr)
  case Nil
  then show ?case by simp
next
  case (Cons c cs)
  have "a < length (heap (snd (site_exec fm sm api c pr)))"
    using Cons.prems
    by (cases c; cases "registry_static pr") (simp_all add: getInstance_def Let_def)
  then show ?case by (simp add: Cons.IH)
qed

text \<open>
  C9. In a process where \<^verbatim>\<open>getInstance\<close> has not been called, the first call constructs
  a registry with empty containers at a fresh address, stores the address in the static
  and returns it. After any calls made through any references (\<open>cs1\<close>), a second call
  returns the same address and leaves the process as it is; so does a third call, made
  after a registration through the first reference and any further calls (\<open>cs2\<close>). A
  lookup by the registered name through the reference of the third call throws nothing,
  and returns the result of the registered factory when the instance had no entry for
  the name at the registration. One thread of calls is modelled.
\<close>

theorem getInstance_singleton:
  assumes "registry_static pr = None"
    and "getInstance fm sm pr = (a, pr1)"
    and "getInstance fm sm (site_run fm sm api cs1 pr1) = (b, pr2)"
    and "site_exec fm sm api (RegisterVia a n t fac) pr2 = (r, pr3)"
    and "getInstance fm sm (site_run fm sm api cs2 pr3) = (c, pr4)"
  shows "a = length (heap pr) \<and>
         heap pr1 = heap pr @ [FormatterRegistry_new fm sm] \<and>
         registry_static pr1 = Some a \<and>
         b = a \<and> pr2 = site_run fm sm api cs1 pr1 \<and>
         c = a \<and> pr4 = site_run fm sm api cs2 pr3 \<and>
         (\<exists>calls h. site_exec fm sm api (LookupByNameVia c n policy) pr4 =
                      (Lookup (calls, Inr h), pr4)) \<and>
         (find_c n (byName (heap pr2 ! a)) = None \<longrightarrow>
            site_exec fm sm api (LookupByNameVia c n policy) pr4 =
              (Lookup (fst (formatterPolicy api n policy) @
                         [Factory_call (snd (formatterPolicy api n policy))],
                       Inr (fac (snd (formatterPolicy api n policy)))),
               pr4))"
proof -
  have a: "a = length (heap pr)"
    and h1: "heap pr1 = heap pr @ [FormatterRegistry_new fm sm]"
    and s1: "registry_static pr1 = Some a"
    using assms(1,2) by (auto simp: getInstance_first)
  have s2: "registry_static (site_run fm sm api cs1 pr1) = Some a"
    using s1 by (rule site_run_static)
  then have b: "b = a" and p2: "pr2 = site_run fm sm api cs1 pr1"
    using assms(3) by (simp_all add: getInstance_later)
  have l1: "a < length (heap pr1)"
    using a h1 by simp
  then have l2: "a < length (heap pr2)"
    unfolding p2 by (rule site_run_length)
  have p3: "pr3 = pr2\<lparr>heap := (heap pr2)[a := registerFormatter n t fac (heap pr2 ! a)]\<rparr>"
    using assms(4) l2 by simp
  have s3: "registry_static pr3 = Some a"
    using s2 p2 p3 by simp
  then have s4: "registry_static (site_run fm sm api cs2 pr3) = Some a"
    by (rule site_run_static)
  then have c: "c = a" and p4: "pr4 = site_run fm sm api cs2 pr3"
    using assms(5) by (simp_all add: getInstance_later)
  have l3: "a < length (heap pr3)"
    using l2 p3 by simp
  have h3: "heap pr3 ! a = registerFormatter n t fac (heap pr2 ! a)"
    using l2 p3 by simp
  have "\<exists>fac'. find_c n (byName (heap pr3 ! a)) = Some fac'"
    unfolding h3 by (simp add: byName_registerFormatter split: option.splits)
  then obtain fac' where f3: "find_c n (byName (heap pr3 ! a)) = Some fac'"
    by blast
  have k: "a < length (heap pr4) \<and> find_c n (byName (heap pr4 ! a)) = Some fac'"
    unfolding p4 using l3 f3 by (rule site_run_kept)
  have v1: "\<exists>calls h. site_exec fm sm api (LookupByNameVia c n policy) pr4 =
                      (Lookup (calls, Inr h), pr4)"
    using k c by (simp add: lookupFormatter_name_found)
  have v2: "site_exec fm sm api (LookupByNameVia c n policy) pr4 =
              (Lookup (fst (formatterPolicy api n policy) @
                         [Factory_call (snd (formatterPolicy api n policy))],
                       Inr (fac (snd (formatterPolicy api n policy)))),
               pr4)"
    if fresh: "find_c n (byName (heap pr2 ! a)) = None"
  proof -
    have "find_c n (byName (heap pr3 ! a)) = Some fac"
      unfolding h3 using fresh by (simp add: byName_registerFormatter)
    with l3 have "a < length (heap pr4) \<and> find_c n (byName (heap pr4 ! a)) = Some fac"
      unfolding p4 by (rule site_run_kept)
    then show ?thesis
      using c by (simp add: lookupFormatter_name_found)
  qed
  show ?thesis
    using a h1 s1 b p2 c p4 v1 v2 by blast
qed

theorem getInstance_singleton_witness:
  "registry_static (process_start :: (tree, nat \<times> tree option) process) = None \<and>
   getInstance False False (process_start :: (tree, nat \<times> tree option) process) =
     (0, \<lparr>registry_static = Some 0, heap = [FormatterRegistry_new False False]\<rparr>) \<and>
   fst (getInstance False False
          (site_run False False tree_api [LookupByNameVia 0 ''Foo'' None]
             (snd (getInstance False False
                (process_start :: (tree, nat \<times> tree option) process))))) = 0 \<and>
   fst (getInstance False False
          (site_run False False tree_api [GetInstance]
             (snd (site_exec False False tree_api (RegisterVia 0 ''Foo'' ''T1'' factoryA)
                (site_run False False tree_api [LookupByNameVia 0 ''Foo'' None]
                   (snd (getInstance False False
                      (process_start :: (tree, nat \<times> tree option) process)))))))) = 0 \<and>
   fst (site_exec False False tree_api (LookupByNameVia 0 ''Foo'' (Some fooConfig))
          (site_run False False tree_api [GetInstance]
             (snd (site_exec False False tree_api (RegisterVia 0 ''Foo'' ''T1'' factoryA)
                (site_run False False tree_api [LookupByNameVia 0 ''Foo'' None]
                   (snd (getInstance False False
                      (process_start :: (tree, nat \<times> tree option) process)))))))) =
     Lookup ([Exists_call ''Foo'', GetPolicy_call ''Foo'',
              Factory_call (Some (Tree [(''depth'', Tree [])]))],
             Inr (1, Some (Tree [(''depth'', Tree [])])))"
  using getInstance_singleton
    [of "process_start :: (tree, nat \<times> tree option) process" False False 0
        "snd (getInstance False False (process_start :: (tree, nat \<times> tree option) process))"
        tree_api "[LookupByNameVia 0 ''Foo'' None]" 0
        "site_run False False tree_api [LookupByNameVia 0 ''Foo'' None]
           (snd (getInstance False False (process_start :: (tree, nat \<times> tree option) process)))"
        "''Foo''" "''T1''" factoryA Nothing
        "snd (site_exec False False tree_api (RegisterVia 0 ''Foo'' ''T1'' factoryA)
           (site_run False False tree_api [LookupByNameVia 0 ''Foo'' None]
              (snd (getInstance False False
                 (process_start :: (tree, nat \<times> tree option) process)))))"
        "[GetInstance]" 0
        "site_run False False tree_api [GetInstance]
           (snd (site_exec False False tree_api (RegisterVia 0 ''Foo'' ''T1'' factoryA)
              (site_run False False tree_api [LookupByNameVia 0 ''Foo'' None]
                 (snd (getInstance False False
                    (process_start :: (tree, nat \<times> tree option) process))))))"
        "Some fooConfig"]
  by (simp add: process_start_def getInstance_def Let_def FormatterRegistry_new_def empty_c_def
      lookupFormatter_name_def find_c_def registerFormatter_def insert_c_def
      formatterPolicy_def tree_api_def fooConfig_def factoryA_def)

end
